theory Spec2Isabelle
  imports Main "HOL-Library.Word"
begin

section \<open>Fatal outcomes\<close>

text \<open>
  The compiler core has no recoverable failure inside its comparison functions: what can
  go wrong ends the process. \<open>Unreachable\<close> is \<^verbatim>\<open>colt_unreachable(...)\<close>,
  \<open>AssertFailed\<close> is a failed \<^verbatim>\<open>assert_true(...)\<close>, \<open>BadCast\<close> is the downcast
  helper \<^verbatim>\<open>as<PTR<const T>>(p)\<close> applied to an object whose class is not \<open>T\<close>, and
  \<open>OutOfRange\<close> is \<^verbatim>\<open>operator[]\<close> of a view applied to an index at or beyond its
  size. The last two have no defined result in the source language; the model gives them
  a value of their own so that no theorem can depend on what they would return.
\<close>

datatype fatal = Unreachable | AssertFailed | BadCast | OutOfRange

section \<open>Types\<close>

text \<open>
  The scalar kinds are the ones \<^verbatim>\<open>BuiltInType::CreateU8\<close> ... \<^verbatim>\<open>CreateBool\<close> pass
  to the constructor.
\<close>

datatype BuiltInID = U8 | U16 | U32 | U64 | U128 | I8 | I16 | I32 | I64 | I128 | F32 | F64 | BOOL

text \<open>The tags \<^verbatim>\<open>Type::is_equal\<close> switches over, with \<open>TYPE_ERROR\<close> for the sentinel.\<close>

datatype TypeID = TYPE_ERROR | TYPE_VOID | TYPE_BUILTIN | TYPE_PTR | TYPE_FN | TYPE_ARRAY | TYPE_CLASS

text \<open>
  A type is built once by a \<^verbatim>\<open>Create...\<close> factory and never changed afterwards, and
  \<^verbatim>\<open>is_equal\<close> only reads through the handles it holds (it never compares two
  handles), so a handle to a type is modelled by the type it points to. The constructors
  carry the arguments of the factories of \<^verbatim>\<open>colt_type.cpp\<close>:
  \<open>BuiltInType id is_const valid_op\<close>, \<open>PtrType is_const ptr_to\<close>,
  \<open>FnType return_type args_type\<close>. There is no factory for the tags \<open>TYPE_ARRAY\<close> and
  \<open>TYPE_CLASS\<close>. The binary operators of \<^verbatim>\<open>ast/colt_operators.h\<close> are the type
  parameter \<open>'op\<close>.
\<close>

datatype 'op Type =
    VoidType
  | BuiltInType BuiltInID bool "'op list"
  | PtrType bool "'op Type"
  | FnType "'op Type" "'op Type list"
  | ErrorType

fun Type_classof :: "'op Type \<Rightarrow> TypeID" where
  "Type_classof VoidType = TYPE_VOID"
| "Type_classof (BuiltInType i c ops) = TYPE_BUILTIN"
| "Type_classof (PtrType c t) = TYPE_PTR"
| "Type_classof (FnType r ps) = TYPE_FN"
| "Type_classof ErrorType = TYPE_ERROR"

definition is_error :: "'op Type \<Rightarrow> bool" where
  "is_error t = (Type_classof t = TYPE_ERROR)"

text \<open>
  Modelled from the spec: \<^verbatim>\<open>Type::is_const\<close> is declared in \<^verbatim>\<open>colt_type.h\<close>.
  The const-flag is a constructor argument of built-in and pointer types only; the other
  variants are taken as not const.
\<close>

fun is_const :: "'op Type \<Rightarrow> bool" where
  "is_const (BuiltInType i c ops) = c"
| "is_const (PtrType c t) = c"
| "is_const t = False"

text \<open>
  \<^verbatim>\<open>BuiltInType::supports\<close>: a linear scan of the operator view \<open>valid_op\<close> of the
  built-in type, from index 0.
\<close>

fun supports :: "'op list \<Rightarrow> 'op \<Rightarrow> bool" where
  "supports [] op = False"
| "supports (v # valid_op) op = (if v = op then True else supports valid_op op)"

text \<open>
  \<^verbatim>\<open>Type::is_equal\<close> and \<^verbatim>\<open>Type::is_equal_with_const\<close>. In each case of the switch
  \<open>a\<close> is the argument \<open>type\<close> and \<open>b\<close> is \<open>this\<close>, both downcast to the class of
  \<open>this\<close>; the cast of \<open>type\<close> is the one that can meet another class. In the function
  case the test before the loop is a conjunction whose left operand, the comparison of
  the return types, is always evaluated. The loop runs over the indices of \<open>a\<close>'s
  parameters and reads \<open>b\<close>'s parameters at the same index: \<open>is_equal_params\<close> walks
  both lists from index 0 and is \<open>OutOfRange\<close> where \<open>b\<close>'s list ends first.
\<close>

function is_equal :: "'op Type \<Rightarrow> 'op Type \<Rightarrow> fatal + bool"
  and is_equal_with_const :: "'op Type \<Rightarrow> 'op Type \<Rightarrow> fatal + bool"
  and is_equal_params :: "'op Type list \<Rightarrow> 'op Type list \<Rightarrow> fatal + bool"
where
  "is_equal this type =
     (if is_error this \<or> is_error type then Inr True
      else case this of
        VoidType \<Rightarrow> Inr True
      | BuiltInType b_id b_const b_ops \<Rightarrow>
          (case type of
             BuiltInType a_id a_const a_ops \<Rightarrow> Inr (a_id = b_id)
           | _ \<Rightarrow> Inl BadCast)
      | PtrType b_const b_to \<Rightarrow>
          (case type of
             PtrType a_const a_to \<Rightarrow> is_equal_with_const a_to b_to
           | _ \<Rightarrow> Inl BadCast)
      | FnType b_ret b_params \<Rightarrow>
          (case type of
             FnType a_ret a_params \<Rightarrow>
               (case is_equal a_ret b_ret of
                  Inl e \<Rightarrow> Inl e
                | Inr r \<Rightarrow>
                    if \<not> r \<and> length a_params \<noteq> length b_params then Inr False
                    else is_equal_params a_params b_params)
           | _ \<Rightarrow> Inl BadCast)
      | ErrorType \<Rightarrow> Inl Unreachable)"
| "is_equal_with_const this type =
     (if is_const this \<noteq> is_const type then Inr False else is_equal this type)"
| "is_equal_params [] bs = Inr True"
| "is_equal_params (a # as) [] = Inl OutOfRange"
| "is_equal_params (a # as) (b # bs) =
     (case is_equal a b of
        Inl e \<Rightarrow> Inl e
      | Inr r \<Rightarrow> if \<not> r then Inr False else is_equal_params as bs)"
  by pat_completeness auto

termination
  by (relation "measure (\<lambda>x. case x of
          Inl (this, type) \<Rightarrow> 2 * (size this + size type)
        | Inr (Inl (this, type)) \<Rightarrow> 2 * (size this + size type) + 1
        | Inr (Inr (as, bs)) \<Rightarrow> 2 * (size_list size as + size_list size bs) + 1)")
     auto

declare is_equal.simps [simp del]

section \<open>Expressions\<close>

type_synonym u16 = "16 word"
type_synonym u64 = "64 word"
type_synonym QWORD = "64 word"

text \<open>\<^verbatim>\<open>std::numeric_limits<u64>::max()\<close>.\<close>

definition u64_max :: u64 where
  "u64_max = 0xFFFFFFFFFFFFFFFF"

text \<open>
  \<^verbatim>\<open>PTR<Expr>\<close> is a plain pointer into the context that owns every node: \<open>None\<close>
  is the null pointer and \<open>Some a\<close> is the address \<open>a\<close>. Two handles are equal when
  they are the same address, whatever the nodes stored there look like.
\<close>

type_synonym PTR = "nat option"

datatype ExprID =
    EXPR_BASE | EXPR_LITERAL | EXPR_UNARY | EXPR_BINARY | EXPR_CONVERT | EXPR_VAR_DECL
  | EXPR_VAR_READ | EXPR_VAR_WRITE | EXPR_FN_DEF | EXPR_FN_CALL | EXPR_FN_RETURN | EXPR_SCOPE
  | EXPR_CONDITION

text \<open>
  One constructor for each class of \<^verbatim>\<open>colt_expr.h\<close>, the fields in the order of the
  class, each selector named after the getter of the class. \<^verbatim>\<open>colt_expr.cpp\<close>
  writes \<open>VarDeclExpr\<close>, \<open>VarReadExpr\<close> and \<open>VarWriteExpr\<close> for the three
  \<open>Variable...\<close> classes. The unary and binary operators of
  \<^verbatim>\<open>ast/colt_operators.h\<close> are the type parameters \<open>'u\<close> and \<open>'b\<close>; a unary or
  binary node stores the operator, not the token it came from. No class is declared for
  the tags \<open>EXPR_BASE\<close> and \<open>EXPR_FN_CALL\<close>.
\<close>

datatype ('u, 'b) Expr =
    LiteralExpr (Literal_get_value: QWORD)
  | UnaryExpr (Unary_get_operation: 'u) (Unary_get_child: PTR)
  | BinaryExpr (Binary_get_LHS: PTR) (Binary_get_operation: 'b) (Binary_get_RHS: PTR)
  | ConvertExpr (Convert_get_child: PTR)
  | VariableDeclExpr (VarDecl_is_global: bool) (VarDecl_get_value: PTR) (VarDecl_get_name: string)
  | VariableReadExpr (VarRead_unsafe_get_local_id: u64) (VarRead_get_name: string)
  | VariableWriteExpr (VarWrite_unsafe_get_local_id: u64) (VarWrite_get_value: PTR)
      (VarWrite_get_name: string)
  | FnReturnExpr (FnReturn_get_value: PTR)
  | FnDefExpr (FnDef_get_body: PTR) (FnDef_get_params_name: "string list")
      (FnDef_get_return_list: "PTR list") (FnDef_get_name: string)
  | ScopeExpr (Scope_get_body_array: "PTR list")
  | ConditionExpr (Condition_get_if_condition: PTR) (Condition_get_if_statement: PTR)
      (Condition_get_else_statement: PTR)

fun Expr_classof :: "('u, 'b) Expr \<Rightarrow> ExprID" where
  "Expr_classof (LiteralExpr v) = EXPR_LITERAL"
| "Expr_classof (UnaryExpr op c) = EXPR_UNARY"
| "Expr_classof (BinaryExpr l op r) = EXPR_BINARY"
| "Expr_classof (ConvertExpr c) = EXPR_CONVERT"
| "Expr_classof (VariableDeclExpr g v n) = EXPR_VAR_DECL"
| "Expr_classof (VariableReadExpr i n) = EXPR_VAR_READ"
| "Expr_classof (VariableWriteExpr i v n) = EXPR_VAR_WRITE"
| "Expr_classof (FnReturnExpr v) = EXPR_FN_RETURN"
| "Expr_classof (FnDefExpr b ps rs n) = EXPR_FN_DEF"
| "Expr_classof (ScopeExpr b) = EXPR_SCOPE"
| "Expr_classof (ConditionExpr c t e) = EXPR_CONDITION"

subsection \<open>Global and local variables\<close>

text \<open>\<^verbatim>\<open>VariableReadExpr::is_global\<close> and \<^verbatim>\<open>VariableWriteExpr::is_global\<close>.\<close>

definition VarRead_is_global :: "('u, 'b) Expr \<Rightarrow> bool" where
  "VarRead_is_global e = (VarRead_unsafe_get_local_id e = u64_max)"

definition VarWrite_is_global :: "('u, 'b) Expr \<Rightarrow> bool" where
  "VarWrite_is_global e = (VarWrite_unsafe_get_local_id e = u64_max)"

text \<open>
  The two constructors of each class. The one without a local ID stores the maximum; the
  one with a local ID stores it and then asserts that the node is not global.
\<close>

definition VariableReadExpr_global :: "string \<Rightarrow> ('u, 'b) Expr" where
  "VariableReadExpr_global name = VariableReadExpr u64_max name"

definition VariableReadExpr_local :: "string \<Rightarrow> u64 \<Rightarrow> fatal + ('u, 'b) Expr" where
  "VariableReadExpr_local name local_ID =
     (let e = VariableReadExpr local_ID name
      in if \<not> VarRead_is_global e then Inr e else Inl AssertFailed)"

definition VariableWriteExpr_global :: "string \<Rightarrow> PTR \<Rightarrow> ('u, 'b) Expr" where
  "VariableWriteExpr_global name val = VariableWriteExpr u64_max val name"

definition VariableWriteExpr_local :: "string \<Rightarrow> PTR \<Rightarrow> u64 \<Rightarrow> fatal + ('u, 'b) Expr" where
  "VariableWriteExpr_local name val local_ID =
     (let e = VariableWriteExpr local_ID val name
      in if \<not> VarWrite_is_global e then Inr e else Inl AssertFailed)"

text \<open>\<^verbatim>\<open>get_local_ID\<close> asserts that the variable is not global.\<close>

definition VarRead_get_local_ID :: "('u, 'b) Expr \<Rightarrow> fatal + u64" where
  "VarRead_get_local_ID e =
     (if \<not> VarRead_is_global e then Inr (VarRead_unsafe_get_local_id e) else Inl AssertFailed)"

definition VarWrite_get_local_ID :: "('u, 'b) Expr \<Rightarrow> fatal + u64" where
  "VarWrite_get_local_ID e =
     (if \<not> VarWrite_is_global e then Inr (VarWrite_unsafe_get_local_id e) else Inl AssertFailed)"

subsection \<open>Equality of expressions\<close>

text \<open>
  \<^verbatim>\<open>operator==(const Expr&, const Expr&)\<close>. After the test of the two tags, each
  case casts both operands to the class of the tag and compares getters; the getters of
  children return handles, and \<open>=\<close> on \<open>PTR\<close> is the comparison of two addresses. The
  literal case returns false (the comparison of the values is commented out). The scope
  case has an empty body and no return, so control falls into the default case.
\<close>

definition operator_eq :: "('u, 'b) Expr \<Rightarrow> ('u, 'b) Expr \<Rightarrow> fatal + bool" where
  "operator_eq lhs rhs =
     (if Expr_classof lhs \<noteq> Expr_classof rhs then Inr False
      else case Expr_classof lhs of
        EXPR_LITERAL \<Rightarrow> Inr False
      | EXPR_UNARY \<Rightarrow>
          Inr (Unary_get_operation lhs = Unary_get_operation rhs
             \<and> Unary_get_child lhs = Unary_get_child rhs)
      | EXPR_BINARY \<Rightarrow>
          Inr (Binary_get_operation lhs = Binary_get_operation rhs
             \<and> Binary_get_LHS lhs = Binary_get_LHS rhs
             \<and> Binary_get_RHS lhs = Binary_get_RHS rhs)
      | EXPR_CONVERT \<Rightarrow> Inr (Convert_get_child lhs = Convert_get_child rhs)
      | EXPR_VAR_DECL \<Rightarrow>
          Inr (VarDecl_get_name lhs = VarDecl_get_name rhs
             \<and> VarDecl_is_global lhs = VarDecl_is_global rhs
             \<and> VarDecl_get_value lhs = VarDecl_get_value rhs)
      | EXPR_VAR_READ \<Rightarrow>
          Inr (VarRead_get_name lhs = VarRead_get_name rhs
             \<and> VarRead_unsafe_get_local_id lhs = VarRead_unsafe_get_local_id rhs)
      | EXPR_VAR_WRITE \<Rightarrow>
          Inr (VarWrite_get_name lhs = VarWrite_get_name rhs
             \<and> VarWrite_unsafe_get_local_id lhs = VarWrite_unsafe_get_local_id rhs
             \<and> VarWrite_get_value lhs = VarWrite_get_value rhs)
      | EXPR_FN_DEF \<Rightarrow> Inr False
      | EXPR_CONDITION \<Rightarrow>
          Inr (Condition_get_if_condition lhs = Condition_get_if_condition rhs
             \<and> Condition_get_if_statement lhs = Condition_get_if_statement rhs
             \<and> Condition_get_else_statement lhs = Condition_get_else_statement rhs)
      | EXPR_FN_RETURN \<Rightarrow> Inr (FnReturn_get_value lhs = FnReturn_get_value rhs)
      | EXPR_SCOPE \<Rightarrow> Inl Unreachable
      | EXPR_FN_CALL \<Rightarrow> Inl Unreachable
      | EXPR_BASE \<Rightarrow> Inl Unreachable)"

subsection \<open>The context\<close>

text \<open>
  Modelled from the spec: \<^verbatim>\<open>COLTContext\<close> and its \<^verbatim>\<open>add_expr\<close> are declared in
  \<^verbatim>\<open>context/colt_context.h\<close>. The context owns every node; adding a node takes
  ownership of a freshly constructed node and returns a stable handle to it, and no node
  is moved or freed afterwards. The arena is the list of the nodes in the order they were
  added and the handle of a node is its position.
\<close>

record ('u, 'b) COLTContext =
  exprs :: "('u, 'b) Expr list"

definition add_expr :: "('u, 'b) Expr \<Rightarrow> ('u, 'b) COLTContext \<Rightarrow> PTR \<times> ('u, 'b) COLTContext" where
  "add_expr e ctx = (Some (length (exprs ctx)), ctx\<lparr>exprs := exprs ctx @ [e]\<rparr>)"

text \<open>Reading through a handle: nothing for the null pointer or an address never handed out.\<close>

definition deref :: "('u, 'b) COLTContext \<Rightarrow> PTR \<Rightarrow> ('u, 'b) Expr option" where
  "deref ctx p =
     (case p of
        None \<Rightarrow> None
      | Some a \<Rightarrow> if a < length (exprs ctx) then Some (exprs ctx ! a) else None)"

text \<open>\<^verbatim>\<open>LiteralExpr::CreateExpr\<close>, the factory of literals in \<^verbatim>\<open>colt_expr.cpp\<close>.\<close>

definition LiteralExpr_CreateExpr :: "QWORD \<Rightarrow> ('u, 'b) COLTContext \<Rightarrow> PTR \<times> ('u, 'b) COLTContext" where
  "LiteralExpr_CreateExpr v ctx = add_expr (LiteralExpr v) ctx"

section \<open>The AST builder\<close>

text \<open>
  Modelled from the spec: the \<^verbatim>\<open>Token\<close> enumeration and the \<^verbatim>\<open>Lexer\<close> are declared
  in \<^verbatim>\<open>parsing/colt_lexer.h\<close>. The tokens are the ones \<^verbatim>\<open>colt_ast.h\<close> names,
  and \<open>TKN_OTHER\<close> for any other. The lexer holds the tokens not yet returned, each with
  its lexeme; asking for the next token at the end of the input keeps returning
  \<open>TKN_EOF\<close>.
\<close>

datatype Token =
    TKN_EOF | TKN_ERROR | TKN_SEMICOLON | TKN_COMMA | TKN_COLON | TKN_LEFT_CURLY
  | TKN_LEFT_PAREN | TKN_RIGHT_PAREN | TKN_PLUS_PLUS | TKN_MINUS_MINUS | TKN_OTHER nat

record Lexer =
  pending :: "(Token \<times> string) list"
  line_nb :: nat
  line_strv :: string
  current_lexeme :: string

definition get_next_token :: "Lexer \<Rightarrow> Token \<times> Lexer" where
  "get_next_token lx =
     (case pending lx of
        [] \<Rightarrow> (TKN_EOF, lx)
      | (t, lexeme) # rest \<Rightarrow> (t, lx\<lparr>pending := rest, current_lexeme := lexeme\<rparr>))"

text \<open>The source position a diagnostic carries.\<close>

record SourceCodeExprInfo =
  line_begin :: nat
  line_end :: nat
  lines :: string
  expression :: string

datatype report_as = ERROR | WARNING | MESSAGE

text \<open>
  The members of \<^verbatim>\<open>ASTMaker\<close> that reporting, token consumption and the result
  read or write. \<open>reported\<close> is what the three sinks \<^verbatim>\<open>GenerateError\<close>,
  \<^verbatim>\<open>GenerateWarning\<close> and \<^verbatim>\<open>GenerateMessage\<close> have received so far: they belong
  to the output layer and are called for their effect only.
\<close>

record ASTMaker =
  expressions :: "PTR list"
  error_count :: u16
  warn_count :: u16
  lexer :: Lexer
  current_tkn :: Token
  reported :: "(report_as \<times> SourceCodeExprInfo \<times> string) list"


definition get_warn_count :: "ASTMaker \<Rightarrow> u16" where
  "get_warn_count ast = warn_count ast"


definition is_empty :: "ASTMaker \<Rightarrow> bool" where
  "is_empty ast = (length (expressions ast) = 0)"

definition is_valid_scope_begin :: "ASTMaker \<Rightarrow> bool" where
  "is_valid_scope_begin ast = (current_tkn ast = TKN_COLON \<or> current_tkn ast = TKN_LEFT_CURLY)"

text \<open>
  Modelled from the spec: the bodies of \<^verbatim>\<open>consume_current_tkn\<close> and of the three
  \<^verbatim>\<open>panic_consume_...\<close> methods are in \<^verbatim>\<open>colt_ast.cpp\<close>. Each is written from
  its comment in \<^verbatim>\<open>colt_ast.h\<close>: the first updates the current token to the next
  token; the others consume tokens till one of the tokens they name is the current one.
  \<open>panic_until\<close> is their common loop: it ends because every step takes one pending
  token away, or finds none and makes \<open>TKN_EOF\<close> the current token, which stops it.
\<close>

definition consume_current_tkn :: "ASTMaker \<Rightarrow> ASTMaker" where
  "consume_current_tkn ast =
     (let (t, lx) = get_next_token (lexer ast) in ast\<lparr>lexer := lx, current_tkn := t\<rparr>)"

function panic_until :: "(ASTMaker \<Rightarrow> bool) \<Rightarrow> ASTMaker \<Rightarrow> ASTMaker" where
  "panic_until stop ast =
     (if stop ast \<or> current_tkn ast = TKN_EOF then ast
      else panic_until stop (consume_current_tkn ast))"
  by pat_completeness auto

termination
  by (relation "measure (\<lambda>(stop, ast).
          length (pending (lexer ast)) + (if current_tkn ast = TKN_EOF then 0 else 1))")
     (auto simp: consume_current_tkn_def get_next_token_def split: list.splits prod.splits)

declare panic_until.simps [simp del]

definition panic_consume_semicolon :: "ASTMaker \<Rightarrow> ASTMaker" where
  "panic_consume_semicolon = panic_until (\<lambda>ast. current_tkn ast = TKN_SEMICOLON)"

definition panic_consume_fn_decl :: "ASTMaker \<Rightarrow> ASTMaker" where
  "panic_consume_fn_decl =
     panic_until (\<lambda>ast. current_tkn ast = TKN_SEMICOLON \<or> is_valid_scope_begin ast)"

definition panic_consume_rparen :: "ASTMaker \<Rightarrow> ASTMaker" where
  "panic_consume_rparen = panic_until (\<lambda>ast. current_tkn ast = TKN_RIGHT_PAREN)"

text \<open>
  \<^verbatim>\<open>panic_consume_t\<close> is a pointer to a method of \<^verbatim>\<open>ASTMaker\<close> that takes no
  argument and returns nothing. The class declares four such methods; the null pointer is
  \<open>None\<close>.
\<close>

datatype panic_consume_t =
    Ptr_consume_current_tkn
  | Ptr_panic_consume_semicolon
  | Ptr_panic_consume_fn_decl
  | Ptr_panic_consume_rparen

fun call_method :: "panic_consume_t \<Rightarrow> ASTMaker \<Rightarrow> ASTMaker" where
  "call_method Ptr_consume_current_tkn = consume_current_tkn"
| "call_method Ptr_panic_consume_semicolon = panic_consume_semicolon"
| "call_method Ptr_panic_consume_fn_decl = panic_consume_fn_decl"
| "call_method Ptr_panic_consume_rparen = panic_consume_rparen"

text \<open>
  \<^verbatim>\<open>ASTMaker::generate_any\<close> and \<^verbatim>\<open>ASTMaker::generate_any_current\<close>, with the
  template argument \<open>as\<close> first and the formatted text as one string. The error branch
  is the only one that touches a counter: \<^verbatim>\<open>++error_count\<close> on a \<open>u16\<close>.
\<close>

definition generate_any ::
  "report_as \<Rightarrow> SourceCodeExprInfo \<Rightarrow> panic_consume_t option \<Rightarrow> string \<Rightarrow> ASTMaker \<Rightarrow> ASTMaker"
where
  "generate_any as src_info panic_c fmt ast =
     (let ast1 =
        (case as of
           ERROR \<Rightarrow>
             ast\<lparr>reported := reported ast @ [(ERROR, src_info, fmt)],
                 error_count := error_count ast + 1\<rparr>
         | WARNING \<Rightarrow> ast\<lparr>reported := reported ast @ [(WARNING, src_info, fmt)]\<rparr>
         | MESSAGE \<Rightarrow> ast\<lparr>reported := reported ast @ [(MESSAGE, src_info, fmt)]\<rparr>)
      in case panic_c of
           None \<Rightarrow> ast1
         | Some m \<Rightarrow> call_method m ast1)"

definition generate_any_current ::
  "report_as \<Rightarrow> panic_consume_t option \<Rightarrow> string \<Rightarrow> ASTMaker \<Rightarrow> ASTMaker"
where
  "generate_any_current as panic_c fmt ast =
     (let src_info =
            \<lparr>line_begin = line_nb (lexer ast), line_end = line_nb (lexer ast),
             lines = line_strv (lexer ast), expression = current_lexeme (lexer ast)\<rparr>;
          ast1 =
        (case as of
           ERROR \<Rightarrow>
             ast\<lparr>reported := reported ast @ [(ERROR, src_info, fmt)],
                 error_count := error_count ast + 1\<rparr>
         | WARNING \<Rightarrow> ast\<lparr>reported := reported ast @ [(WARNING, src_info, fmt)]\<rparr>
         | MESSAGE \<Rightarrow> ast\<lparr>reported := reported ast @ [(MESSAGE, src_info, fmt)]\<rparr>)
      in case panic_c of
           None \<Rightarrow> ast1
         | Some m \<Rightarrow> call_method m ast1)"

text \<open>\<^verbatim>\<open>check_and_consume\<close>, in its two forms: the flag returned is true for a mismatch.\<close>

definition check_and_consume :: "Token \<Rightarrow> string \<Rightarrow> ASTMaker \<Rightarrow> bool \<times> ASTMaker" where
  "check_and_consume expected fmt ast =
     (if current_tkn ast = expected then (False, consume_current_tkn ast)
      else (True, generate_any_current ERROR (Some Ptr_panic_consume_semicolon) fmt ast))"

definition check_and_consume_panic ::
  "Token \<Rightarrow> panic_consume_t option \<Rightarrow> string \<Rightarrow> ASTMaker \<Rightarrow> bool \<times> ASTMaker"
where
  "check_and_consume_panic expected panic fmt ast =
     (if current_tkn ast = expected then (False, consume_current_tkn ast)
      else (True, generate_any_current ERROR panic fmt ast))"

subsection \<open>The result of a compilation\<close>



text \<open>
  The errors of a compilation, in the spec's words: the number of diagnostics that the
  builder has handed to \<^verbatim>\<open>GenerateError\<close>, read from what the sinks received.
\<close>

definition errors_reported :: "ASTMaker \<Rightarrow> nat" where
  "errors_reported ast = length (filter (\<lambda>d. fst d = ERROR) (reported ast))"

section \<open>Properties of type equality\<close>

text \<open>The defining equation of \<open>is_equal\<close>, one case of the switch at a time.\<close>

lemma is_equal_ErrorType_left: "is_equal ErrorType t = Inr True"
  by (simp add: is_equal.simps is_error_def)

lemma is_equal_ErrorType_right: "is_equal t ErrorType = Inr True"
  by (simp add: is_equal.simps is_error_def)

lemma is_equal_VoidType: "is_equal VoidType t = Inr True"
  by (simp add: is_equal.simps)

lemma is_equal_BuiltInType:
  "is_equal (BuiltInType i c ops) (BuiltInType j d ops') = Inr (j = i)"
  by (simp add: is_equal.simps is_error_def)

lemma is_equal_PtrType:
  "is_equal (PtrType c t) (PtrType d u) = is_equal_with_const u t"
  by (simp add: is_equal.simps is_error_def)

lemma is_equal_FnType:
  "is_equal (FnType b_ret b_params) (FnType a_ret a_params) =
     (case is_equal a_ret b_ret of
        Inl e \<Rightarrow> Inl e
      | Inr r \<Rightarrow> if \<not> r \<and> length a_params \<noteq> length b_params then Inr False
                else is_equal_params a_params b_params)"
  by (simp add: is_equal.simps is_error_def)

text \<open>
  Claim C3. With the error sentinel as either operand, \<open>is_equal\<close> returns true, whatever
  the other operand is: the test of the two operands for the sentinel comes before the
  switch.
\<close>

theorem is_equal_error_sentinel:
  "is_equal ErrorType t = Inr True \<and> is_equal t ErrorType = Inr True"
  by (simp add: is_equal.simps is_error_def)

theorem is_equal_error_sentinel_witness:
  "is_equal ErrorType (FnType VoidType [PtrType True (BuiltInType I64 False [])] :: nat Type)
     = Inr True
   \<and> is_equal (FnType VoidType [PtrType True (BuiltInType I64 False [])] :: nat Type) ErrorType
     = Inr True"
  using is_equal_error_sentinel
          [of "FnType VoidType [PtrType True (BuiltInType I64 False [])] :: nat Type"]
  by simp

text \<open>
  Claim C1. Two function types should be equal only if their return types are equal and
  their parameter lists are equal element by element. The test before the loop rejects
  only when the return types differ and the sizes differ as well, and the loop runs over
  the parameters of the argument alone. A function type taking one \<open>u8\<close> and returning
  void is found equal to the function type taking nothing and returning void, and two
  function types without parameters are found equal although one returns \<open>u16\<close> and the
  other \<open>u8\<close>.
\<close>

theorem is_equal_FnType_accepts_different_signatures:
  "is_equal (FnType VoidType [BuiltInType U8 False []]) (FnType VoidType ([] :: nat Type list))
     = Inr True
   \<and> is_equal (FnType (BuiltInType U8 False []) []) (FnType (BuiltInType U16 False []) ([] :: nat Type list))
     = Inr True"
  by (simp add: is_equal_FnType is_equal_VoidType is_equal_BuiltInType)

text \<open>Every type is equal to itself.\<close>

lemma is_equal_params_refl:
  "(\<And>x. x \<in> set ts \<Longrightarrow> is_equal x x = Inr True) \<Longrightarrow> is_equal_params ts ts = Inr True"
  by (induction ts) simp_all

lemma is_equal_refl: "is_equal t t = Inr True"
proof (induction t)
  case VoidType
  show ?case by (rule is_equal_VoidType)
next
  case (BuiltInType i c ops)
  show ?case by (simp add: is_equal_BuiltInType)
next
  case (PtrType c t)
  then show ?case by (simp add: is_equal_PtrType)
next
  case (FnType r ps)
  then show ?case by (simp add: is_equal_FnType is_equal_params_refl)
next
  case ErrorType
  show ?case by (rule is_equal_ErrorType_left)
qed

text \<open>
  Claim C2. \<open>is_equal\<close> should be reflexive and symmetric. It is reflexive, but the void
  case of the switch returns true without looking at the argument, while the other cases
  downcast the argument to the class of \<open>this\<close>: void compared with the built-in type
  \<open>u8\<close> is true, and \<open>u8\<close> compared with void is the downcast of a void type to a
  built-in type.
\<close>

theorem is_equal_VoidType_not_symmetric:
  "is_equal VoidType (BuiltInType U8 False ([] :: nat list)) = Inr True
   \<and> is_equal (BuiltInType U8 False ([] :: nat list)) VoidType = Inl BadCast"
  by (simp add: is_equal.simps is_error_def)

section \<open>Properties of expression equality\<close>

text \<open>\<open>operator_eq\<close> on two nodes of the same class, one class at a time.\<close>

lemma operator_eq_LiteralExpr: "operator_eq (LiteralExpr v) (LiteralExpr w) = Inr False"
  by (simp add: operator_eq_def)

lemma operator_eq_UnaryExpr:
  "operator_eq (UnaryExpr op c) (UnaryExpr op' c') = Inr (op = op' \<and> c = c')"
  by (simp add: operator_eq_def)

lemma operator_eq_BinaryExpr:
  "operator_eq (BinaryExpr l op r) (BinaryExpr l' op' r') = Inr (op = op' \<and> l = l' \<and> r = r')"
  by (simp add: operator_eq_def)

lemma operator_eq_ConvertExpr:
  "operator_eq (ConvertExpr c) (ConvertExpr c') = Inr (c = c')"
  by (simp add: operator_eq_def)

lemma operator_eq_VariableDeclExpr:
  "operator_eq (VariableDeclExpr g v n) (VariableDeclExpr g' v' n')
     = Inr (n = n' \<and> g = g' \<and> v = v')"
  by (simp add: operator_eq_def)

lemma operator_eq_VariableReadExpr:
  "operator_eq (VariableReadExpr i n) (VariableReadExpr i' n') = Inr (n = n' \<and> i = i')"
  by (simp add: operator_eq_def)

lemma operator_eq_VariableWriteExpr:
  "operator_eq (VariableWriteExpr i v n) (VariableWriteExpr i' v' n')
     = Inr (n = n' \<and> i = i' \<and> v = v')"
  by (simp add: operator_eq_def)

lemma operator_eq_FnReturnExpr:
  "operator_eq (FnReturnExpr v) (FnReturnExpr v') = Inr (v = v')"
  by (simp add: operator_eq_def)

lemma operator_eq_FnDefExpr:
  "operator_eq (FnDefExpr b ps rs n) (FnDefExpr b' ps' rs' n') = Inr False"
  by (simp add: operator_eq_def)

lemma operator_eq_ScopeExpr:
  "operator_eq (ScopeExpr b) (ScopeExpr b') = Inl Unreachable"
  by (simp add: operator_eq_def)

lemma operator_eq_ConditionExpr:
  "operator_eq (ConditionExpr c t e) (ConditionExpr c' t' e')
     = Inr (c = c' \<and> t = t' \<and> e = e')"
  by (simp add: operator_eq_def)

lemma operator_eq_classof:
  "Expr_classof lhs \<noteq> Expr_classof rhs \<Longrightarrow> operator_eq lhs rhs = Inr False"
  by (simp add: operator_eq_def)

lemma operator_eq_True_classof:
  "operator_eq lhs rhs = Inr True \<Longrightarrow>
     Expr_classof lhs = Expr_classof rhs \<and> Expr_classof lhs \<noteq> EXPR_LITERAL"
  by (auto simp: operator_eq_def split: if_splits)

text \<open>
  Two literals that carry the same raw value 1 do not compare equal: the literal case
  returns false.
\<close>

theorem operator_eq_Literal_same_value_false:
  "operator_eq (LiteralExpr 1 :: (nat, nat) Expr) (LiteralExpr 1) = Inr False"
  by (simp add: operator_eq_def)

text \<open>
  Claim C4, amended. Two literals never compare equal, whatever raw 64-bit values they
  carry, equal or not; the raw value is the one field of a literal; and two expressions
  that compare equal have the same class, which is not the class of literals.
\<close>

theorem operator_eq_Literal_never_equal:
  "operator_eq (LiteralExpr v) (LiteralExpr w) = Inr False
   \<and> Literal_get_value (LiteralExpr v) = v
   \<and> (operator_eq lhs rhs = Inr True \<longrightarrow>
        Expr_classof lhs = Expr_classof rhs \<and> Expr_classof lhs \<noteq> EXPR_LITERAL)"
  using operator_eq_True_classof [of lhs rhs] by (auto simp: operator_eq_LiteralExpr)

theorem operator_eq_Literal_never_equal_witness:
  "operator_eq (LiteralExpr 7 :: (nat, nat) Expr) (LiteralExpr 7) = Inr False
   \<and> operator_eq (ConvertExpr (Some 0) :: (nat, nat) Expr) (ConvertExpr (Some 0)) = Inr True
   \<and> Expr_classof (ConvertExpr (Some 0) :: (nat, nat) Expr) \<noteq> EXPR_LITERAL"
  using operator_eq_Literal_never_equal
          [of 7 7 "ConvertExpr (Some 0) :: (nat, nat) Expr" "ConvertExpr (Some 0)"]
  by (simp add: operator_eq_ConvertExpr)

text \<open>
  Claim C5. Comparing two scopes should return false and stay away from the fatal default
  branch. The scope case has no return statement (the scope case of \<^verbatim>\<open>hash\<close> in the
  same file has one), so the comparison of two empty scopes falls into
  \<^verbatim>\<open>colt_unreachable("Invalid classof()")\<close>.
\<close>

theorem operator_eq_Scope_unreachable:
  "operator_eq (ScopeExpr [] :: (nat, nat) Expr) (ScopeExpr []) = Inl Unreachable"
  by (simp add: operator_eq_def)

text \<open>
  Adding the same node twice gives two different handles to two nodes that look the same.
\<close>

lemma add_expr_fst: "fst (add_expr e ctx) = Some (length (exprs ctx))"
  by (simp add: add_expr_def)

lemma add_expr_exprs: "exprs (snd (add_expr e ctx)) = exprs ctx @ [e]"
  by (simp add: add_expr_def)

lemma add_expr_twice:
  assumes "add_expr e ctx = (p, ctx')" and "add_expr e ctx' = (q, ctx'')"
  shows "p \<noteq> q \<and> deref ctx'' p = Some e \<and> deref ctx'' q = Some e"
proof -
  have p: "p = Some (length (exprs ctx))"
    using add_expr_fst [of e ctx] assms(1) by simp
  have c1: "exprs ctx' = exprs ctx @ [e]"
    using add_expr_exprs [of e ctx] assms(1) by simp
  have q: "q = Some (length (exprs ctx'))"
    using add_expr_fst [of e ctx'] assms(2) by simp
  have c2: "exprs ctx'' = exprs ctx' @ [e]"
    using add_expr_exprs [of e ctx'] assms(2) by simp
  show ?thesis
    by (simp add: p q c1 c2 deref_def nth_append)
qed

text \<open>
  Claim C10. For unary, binary, conversion, variable declaration, variable write, return
  and condition nodes, \<open>operator_eq\<close> compares the children by handle. Two nodes of the
  same class with the same operator and fields compare equal exactly when their child
  handles are the same addresses; in particular, when a node is added to the context
  twice, the two handles \<open>p\<close> and \<open>q\<close> differ although the nodes behind them are
  identical, so parents that differ only in holding \<open>p\<close> or \<open>q\<close> compare unequal, and
  parents that hold the very same handle compare equal.
\<close>

theorem operator_eq_children_by_handle:
  fixes node :: "('u, 'b) Expr"
  shows
  "operator_eq (UnaryExpr op c :: ('u, 'b) Expr) (UnaryExpr op' c') = Inr (op = op' \<and> c = c')
   \<and> operator_eq (BinaryExpr l bop r :: ('u, 'b) Expr) (BinaryExpr l' bop' r') = Inr (bop = bop' \<and> l = l' \<and> r = r')
   \<and> operator_eq (ConvertExpr c :: ('u, 'b) Expr) (ConvertExpr c') = Inr (c = c')
   \<and> operator_eq (VariableDeclExpr g c n :: ('u, 'b) Expr) (VariableDeclExpr g' c' n') = Inr (n = n' \<and> g = g' \<and> c = c')
   \<and> operator_eq (VariableWriteExpr i c n :: ('u, 'b) Expr) (VariableWriteExpr i' c' n') = Inr (n = n' \<and> i = i' \<and> c = c')
   \<and> operator_eq (FnReturnExpr c :: ('u, 'b) Expr) (FnReturnExpr c') = Inr (c = c')
   \<and> operator_eq (ConditionExpr c t e :: ('u, 'b) Expr) (ConditionExpr c' t' e') = Inr (c = c' \<and> t = t' \<and> e = e')
   \<and> (add_expr node ctx = (p, ctx') \<and> add_expr node ctx' = (q, ctx'') \<longrightarrow>
        p \<noteq> q \<and> deref ctx'' p = Some node \<and> deref ctx'' q = Some node
        \<and> operator_eq (UnaryExpr op p :: ('u, 'b) Expr) (UnaryExpr op q) = Inr False
        \<and> operator_eq (UnaryExpr op p :: ('u, 'b) Expr) (UnaryExpr op p) = Inr True
        \<and> operator_eq (BinaryExpr l bop p :: ('u, 'b) Expr) (BinaryExpr l bop q) = Inr False
        \<and> operator_eq (BinaryExpr l bop p :: ('u, 'b) Expr) (BinaryExpr l bop p) = Inr True
        \<and> operator_eq (ConvertExpr p :: ('u, 'b) Expr) (ConvertExpr q) = Inr False
        \<and> operator_eq (ConvertExpr p :: ('u, 'b) Expr) (ConvertExpr p) = Inr True
        \<and> operator_eq (VariableDeclExpr g p n :: ('u, 'b) Expr) (VariableDeclExpr g q n) = Inr False
        \<and> operator_eq (VariableDeclExpr g p n :: ('u, 'b) Expr) (VariableDeclExpr g p n) = Inr True
        \<and> operator_eq (VariableWriteExpr i p n :: ('u, 'b) Expr) (VariableWriteExpr i q n) = Inr False
        \<and> operator_eq (VariableWriteExpr i p n :: ('u, 'b) Expr) (VariableWriteExpr i p n) = Inr True
        \<and> operator_eq (FnReturnExpr p :: ('u, 'b) Expr) (FnReturnExpr q) = Inr False
        \<and> operator_eq (FnReturnExpr p :: ('u, 'b) Expr) (FnReturnExpr p) = Inr True
        \<and> operator_eq (ConditionExpr p t e :: ('u, 'b) Expr) (ConditionExpr q t e) = Inr False
        \<and> operator_eq (ConditionExpr p t e :: ('u, 'b) Expr) (ConditionExpr p t e) = Inr True)"
proof (intro conjI impI)
  assume h: "add_expr node ctx = (p, ctx') \<and> add_expr node ctx' = (q, ctx'')"
  then have tw: "p \<noteq> q \<and> deref ctx'' p = Some node \<and> deref ctx'' q = Some node"
    using add_expr_twice [of node ctx p ctx' q ctx''] by (elim conjE)
  from tw show "p \<noteq> q" by (elim conjE)
  from tw show "deref ctx'' p = Some node" by (elim conjE)
  from tw show "deref ctx'' q = Some node" by (elim conjE)
  from tw have pq: "p \<noteq> q" by (elim conjE)
  from pq show "operator_eq (UnaryExpr op p :: ('u, 'b) Expr) (UnaryExpr op q) = Inr False"
    by (simp add: operator_eq_UnaryExpr)
  from pq show "operator_eq (BinaryExpr l bop p :: ('u, 'b) Expr) (BinaryExpr l bop q) = Inr False"
    by (simp add: operator_eq_BinaryExpr)
  from pq show "operator_eq (ConvertExpr p :: ('u, 'b) Expr) (ConvertExpr q) = Inr False"
    by (simp add: operator_eq_ConvertExpr)
  from pq show "operator_eq (VariableDeclExpr g p n :: ('u, 'b) Expr) (VariableDeclExpr g q n) = Inr False"
    by (simp add: operator_eq_VariableDeclExpr)
  from pq show "operator_eq (VariableWriteExpr i p n :: ('u, 'b) Expr) (VariableWriteExpr i q n) = Inr False"
    by (simp add: operator_eq_VariableWriteExpr)
  from pq show "operator_eq (FnReturnExpr p :: ('u, 'b) Expr) (FnReturnExpr q) = Inr False"
    by (simp add: operator_eq_FnReturnExpr)
  from pq show "operator_eq (ConditionExpr p t e :: ('u, 'b) Expr) (ConditionExpr q t e) = Inr False"
    by (simp add: operator_eq_ConditionExpr)
qed (simp_all only: operator_eq_UnaryExpr operator_eq_BinaryExpr operator_eq_ConvertExpr
       operator_eq_VariableDeclExpr operator_eq_VariableWriteExpr operator_eq_FnReturnExpr
       operator_eq_ConditionExpr simp_thms)

theorem operator_eq_children_by_handle_witness:
  "LiteralExpr_CreateExpr 1 (\<lparr>exprs = []\<rparr> :: (nat, nat) COLTContext)
     = (Some 0, \<lparr>exprs = [LiteralExpr 1]\<rparr>)
   \<and> LiteralExpr_CreateExpr 1 (\<lparr>exprs = [LiteralExpr 1]\<rparr> :: (nat, nat) COLTContext)
     = (Some 1, \<lparr>exprs = [LiteralExpr 1, LiteralExpr 1]\<rparr>)
   \<and> deref \<lparr>exprs = [LiteralExpr 1 :: (nat, nat) Expr, LiteralExpr 1]\<rparr> (Some 0) = Some (LiteralExpr 1)
   \<and> deref \<lparr>exprs = [LiteralExpr 1 :: (nat, nat) Expr, LiteralExpr 1]\<rparr> (Some 1) = Some (LiteralExpr 1)
   \<and> operator_eq (UnaryExpr (0 :: nat) (Some 0) :: (nat, nat) Expr) (UnaryExpr 0 (Some 1)) = Inr False
   \<and> operator_eq (UnaryExpr (0 :: nat) (Some 0) :: (nat, nat) Expr) (UnaryExpr 0 (Some 0)) = Inr True"
proof -
  let ?n = "LiteralExpr 1 :: (nat, nat) Expr"
  have a1: "add_expr ?n \<lparr>exprs = []\<rparr> = (Some 0, \<lparr>exprs = [?n]\<rparr>)"
    by (simp add: add_expr_def)
  have a2: "add_expr ?n \<lparr>exprs = [?n]\<rparr> = (Some 1, \<lparr>exprs = [?n, ?n]\<rparr>)"
    by (simp add: add_expr_def)
  note t = operator_eq_children_by_handle
      [where node = ?n and ctx = "\<lparr>exprs = []\<rparr>" and p = "Some 0" and ctx' = "\<lparr>exprs = [?n]\<rparr>"
         and q = "Some 1" and ctx'' = "\<lparr>exprs = [?n, ?n]\<rparr>" and op = "0 :: nat"]
  from t have imp: "add_expr ?n \<lparr>exprs = []\<rparr> = (Some 0, \<lparr>exprs = [?n]\<rparr>)
        \<and> add_expr ?n \<lparr>exprs = [?n]\<rparr> = (Some 1, \<lparr>exprs = [?n, ?n]\<rparr>) \<longrightarrow>
      deref \<lparr>exprs = [?n, ?n]\<rparr> (Some 0) = Some ?n
      \<and> deref \<lparr>exprs = [?n, ?n]\<rparr> (Some 1) = Some ?n
      \<and> operator_eq (UnaryExpr (0 :: nat) (Some 0) :: (nat, nat) Expr) (UnaryExpr 0 (Some 1)) = Inr False
      \<and> operator_eq (UnaryExpr (0 :: nat) (Some 0) :: (nat, nat) Expr) (UnaryExpr 0 (Some 0)) = Inr True"
    by blast
  from a1 a2 imp show ?thesis
    unfolding LiteralExpr_CreateExpr_def by blast
qed

subsection \<open>The sentinel of global variables\<close>

lemma u64_max_minus_one: "u64_max = - 1"
  by (simp add: u64_max_def)

lemma u64_max_top: "w \<le> u64_max"
  by (simp add: u64_max_minus_one)

lemma unat_u64_max: "unat u64_max = 2 ^ 64 - 1"
  by (simp add: u64_max_def)

text \<open>
  Claim C9. For a variable read and a variable write, \<open>is_global\<close> is true exactly when
  the stored local ID is the maximum \<open>u64\<close>; the constructor without a local ID gives a
  global node; the constructor with a local ID accepts every ID other than the maximum
  and then gives a node with that ID that is not global, and whatever it returns is not
  global.
\<close>

theorem is_global_sentinel:
  fixes r x :: "('u, 'b) Expr"
  shows
  "(VarRead_is_global (VariableReadExpr i n :: ('u, 'b) Expr) \<longleftrightarrow> i = u64_max)
   \<and> (VarWrite_is_global (VariableWriteExpr i v n :: ('u, 'b) Expr) \<longleftrightarrow> i = u64_max)
   \<and> (\<forall>w. w \<le> u64_max)
   \<and> VarRead_is_global (VariableReadExpr_global n :: ('u, 'b) Expr)
   \<and> VarWrite_is_global (VariableWriteExpr_global n v :: ('u, 'b) Expr)
   \<and> (i \<noteq> u64_max \<longrightarrow>
        VariableReadExpr_local n i = Inr (VariableReadExpr i n :: ('u, 'b) Expr)
        \<and> VariableWriteExpr_local n v i = Inr (VariableWriteExpr i v n :: ('u, 'b) Expr))
   \<and> (VariableReadExpr_local n i = Inr r \<longrightarrow> i \<noteq> u64_max \<and> \<not> VarRead_is_global r)
   \<and> (VariableWriteExpr_local n v i = Inr x \<longrightarrow> i \<noteq> u64_max \<and> \<not> VarWrite_is_global x)"
proof -
  have rd: "VarRead_is_global (VariableReadExpr i n :: ('u, 'b) Expr) \<longleftrightarrow> i = u64_max" for i n
    by (simp add: VarRead_is_global_def)
  have wr: "VarWrite_is_global (VariableWriteExpr i v n :: ('u, 'b) Expr) \<longleftrightarrow> i = u64_max" for i v n
    by (simp add: VarWrite_is_global_def)
  have rl: "VariableReadExpr_local n i =
      (if i \<noteq> u64_max then Inr (VariableReadExpr i n :: ('u, 'b) Expr) else Inl AssertFailed)"
    by (simp add: VariableReadExpr_local_def rd)
  have wl: "VariableWriteExpr_local n v i =
      (if i \<noteq> u64_max then Inr (VariableWriteExpr i v n :: ('u, 'b) Expr) else Inl AssertFailed)"
    by (simp add: VariableWriteExpr_local_def wr)
  have r1: "VariableReadExpr_local n i = Inr r \<longrightarrow> i \<noteq> u64_max \<and> \<not> VarRead_is_global r"
    using rd by (auto simp: rl split: if_splits)
  have w1: "VariableWriteExpr_local n v i = Inr x \<longrightarrow> i \<noteq> u64_max \<and> \<not> VarWrite_is_global x"
    using wr by (auto simp: wl split: if_splits)
  have top: "\<forall>w. w \<le> u64_max"
    by (simp add: u64_max_top)
  have rg: "VarRead_is_global (VariableReadExpr_global n :: ('u, 'b) Expr)"
    by (simp add: VariableReadExpr_global_def rd)
  have wg: "VarWrite_is_global (VariableWriteExpr_global n v :: ('u, 'b) Expr)"
    by (simp add: VariableWriteExpr_global_def wr)
  have loc: "i \<noteq> u64_max \<longrightarrow>
        VariableReadExpr_local n i = Inr (VariableReadExpr i n :: ('u, 'b) Expr)
        \<and> VariableWriteExpr_local n v i = Inr (VariableWriteExpr i v n :: ('u, 'b) Expr)"
    by (simp add: rl wl)
  from rd [of i n] wr [of i v n] top rg wg loc r1 w1 show ?thesis
    by (intro conjI)
qed

theorem is_global_sentinel_witness:
  "(3 :: u64) \<noteq> u64_max
   \<and> VariableReadExpr_local ''x'' 3 = Inr (VariableReadExpr 3 ''x'' :: (nat, nat) Expr)
   \<and> VariableWriteExpr_local ''x'' (Some 0) 3 = Inr (VariableWriteExpr 3 (Some 0) ''x'' :: (nat, nat) Expr)
   \<and> \<not> VarRead_is_global (VariableReadExpr 3 ''x'' :: (nat, nat) Expr)
   \<and> \<not> VarWrite_is_global (VariableWriteExpr 3 (Some 0) ''x'' :: (nat, nat) Expr)"
proof -
  let ?r = "VariableReadExpr 3 ''x'' :: (nat, nat) Expr"
  let ?x = "VariableWriteExpr 3 (Some 0) ''x'' :: (nat, nat) Expr"
  note t = is_global_sentinel [of 3 "''x''" "Some 0" ?r ?x]
  have ne: "(3 :: u64) \<noteq> u64_max"
    by (simp add: u64_max_def)
  from t have "(3 :: u64) \<noteq> u64_max \<longrightarrow>
      VariableReadExpr_local ''x'' 3 = Inr ?r \<and> VariableWriteExpr_local ''x'' (Some 0) 3 = Inr ?x"
    by (elim conjE)
  with ne have loc: "VariableReadExpr_local ''x'' 3 = Inr ?r"
      "VariableWriteExpr_local ''x'' (Some 0) 3 = Inr ?x"
    by blast+
  from t have "VariableReadExpr_local ''x'' 3 = Inr ?r \<longrightarrow>
      (3 :: u64) \<noteq> u64_max \<and> \<not> VarRead_is_global ?r"
    by (elim conjE)
  with loc(1) have nr: "\<not> VarRead_is_global ?r"
    by blast
  from t have "VariableWriteExpr_local ''x'' (Some 0) 3 = Inr ?x \<longrightarrow>
      (3 :: u64) \<noteq> u64_max \<and> \<not> VarWrite_is_global ?x"
    by (elim conjE)
  with loc(2) have nx: "\<not> VarWrite_is_global ?x"
    by blast
  from ne loc nr nx show ?thesis
    by (intro conjI)
qed

section \<open>Properties of the AST builder\<close>

text \<open>No method that a \<^verbatim>\<open>panic_consume_t\<close> can point to touches the error counter.\<close>

lemma error_count_consume_current_tkn [simp]:
  "error_count (consume_current_tkn ast) = error_count ast"
  by (simp add: consume_current_tkn_def split: prod.splits)

lemma error_count_panic_until [simp]:
  "error_count (panic_until stop ast) = error_count ast"
proof (induction stop ast rule: panic_until.induct)
  case (1 stop ast)
  then show ?case by (subst panic_until.simps) simp
qed

lemma error_count_call_method [simp]:
  "error_count (call_method m ast) = error_count ast"
  by (cases m)
     (simp_all add: panic_consume_semicolon_def panic_consume_fn_decl_def panic_consume_rparen_def)

lemma error_count_generate_any:
  "error_count (generate_any as src_info panic_c fmt ast) =
     (if as = ERROR then error_count ast + 1 else error_count ast)"
  by (cases as; cases panic_c) (simp_all add: generate_any_def)

lemma error_count_generate_any_current:
  "error_count (generate_any_current as panic_c fmt ast) =
     (if as = ERROR then error_count ast + 1 else error_count ast)"
  by (cases as; cases panic_c) (simp_all add: generate_any_current_def Let_def)

text \<open>
  The counter is a \<open>u16\<close> and the increment is \<^verbatim>\<open>++error_count\<close>: plus one in the
  arithmetic of that type, where 65535 is followed by 0.
\<close>

lemma error_count_wraps:
  "error_count ast = 65535 \<Longrightarrow> error_count (generate_any ERROR src_info panic_c fmt ast) = 0"
  by (simp add: error_count_generate_any)

text \<open>
  Claim C7. A diagnostic reported as an error, through \<open>generate_any\<close> or through
  \<open>generate_any_current\<close>, with any panic method or none, leaves the error counter at
  its value before plus one; a diagnostic reported as a warning or as a message leaves
  the error counter as it was.
\<close>

theorem error_channel_counts:
  "error_count (generate_any ERROR src_info panic_c fmt ast) = error_count ast + 1
   \<and> error_count (generate_any_current ERROR panic_c fmt ast) = error_count ast + 1
   \<and> error_count (generate_any WARNING src_info panic_c fmt ast) = error_count ast
   \<and> error_count (generate_any_current WARNING panic_c fmt ast) = error_count ast
   \<and> error_count (generate_any MESSAGE src_info panic_c fmt ast) = error_count ast
   \<and> error_count (generate_any_current MESSAGE panic_c fmt ast) = error_count ast"
  by (simp add: error_count_generate_any error_count_generate_any_current)

theorem error_channel_counts_witness:
  "error_count (generate_any ERROR
       \<lparr>line_begin = 1, line_end = 1, lines = ''var x = ;'', expression = '';''\<rparr>
       (Some Ptr_panic_consume_semicolon) ''Expected an expression!''
       \<lparr>expressions = [], error_count = 0, warn_count = 0,
        lexer = \<lparr>pending = [(TKN_OTHER 0, ''y''), (TKN_SEMICOLON, '';'')], line_nb = 1,
                 line_strv = ''var x = ; y;'', current_lexeme = '';''\<rparr>,
        current_tkn = TKN_SEMICOLON, reported = []\<rparr>) = 1
   \<and> error_count (generate_any_current WARNING None ''Unused variable!''
       \<lparr>expressions = [], error_count = 0, warn_count = 0,
        lexer = \<lparr>pending = [(TKN_OTHER 0, ''y''), (TKN_SEMICOLON, '';'')], line_nb = 1,
                 line_strv = ''var x = ; y;'', current_lexeme = '';''\<rparr>,
        current_tkn = TKN_SEMICOLON, reported = []\<rparr>) = 0"
  using error_channel_counts
    [of "\<lparr>line_begin = 1, line_end = 1, lines = ''var x = ;'', expression = '';''\<rparr>"
        "Some Ptr_panic_consume_semicolon" "''Expected an expression!''"
        "\<lparr>expressions = [], error_count = 0, warn_count = 0,
        lexer = \<lparr>pending = [(TKN_OTHER 0, ''y''), (TKN_SEMICOLON, '';'')], line_nb = 1,
                 line_strv = ''var x = ; y;'', current_lexeme = '';''\<rparr>,
        current_tkn = TKN_SEMICOLON, reported = []\<rparr>"]
    error_channel_counts
    [of "\<lparr>line_begin = 1, line_end = 1, lines = ''var x = ;'', expression = '';''\<rparr>"
        "None" "''Unused variable!''"
        "\<lparr>expressions = [], error_count = 0, warn_count = 0,
        lexer = \<lparr>pending = [(TKN_OTHER 0, ''y''), (TKN_SEMICOLON, '';'')], line_nb = 1,
                 line_strv = ''var x = ; y;'', current_lexeme = '';''\<rparr>,
        current_tkn = TKN_SEMICOLON, reported = []\<rparr>"]
  by simp




text \<open>
  What the sinks received changes with a report only, by one entry. So the counter of a
  builder that starts at zero with nothing reported, as the member initialisers of
  \<^verbatim>\<open>ASTMaker\<close> leave it, is the number of errors reported so far, in \<open>u16\<close>
  arithmetic, after any sequence of reports and of token consumption.
\<close>

lemma reported_consume_current_tkn [simp]:
  "reported (consume_current_tkn ast) = reported ast"
  by (simp add: consume_current_tkn_def split: prod.splits)

lemma reported_panic_until [simp]:
  "reported (panic_until stop ast) = reported ast"
proof (induction stop ast rule: panic_until.induct)
  case (1 stop ast)
  then show ?case by (subst panic_until.simps) simp
qed

lemma reported_call_method [simp]:
  "reported (call_method m ast) = reported ast"
  by (cases m)
     (simp_all add: panic_consume_semicolon_def panic_consume_fn_decl_def panic_consume_rparen_def)

lemma errors_reported_generate_any:
  "errors_reported (generate_any as src_info panic_c fmt ast) =
     (if as = ERROR then errors_reported ast + 1 else errors_reported ast)"
  by (cases as; cases panic_c) (simp_all add: generate_any_def errors_reported_def)


lemma counted_generate_any:
  "error_count ast = of_nat (errors_reported ast) \<Longrightarrow>
   error_count (generate_any as src_info panic_c fmt ast)
     = of_nat (errors_reported (generate_any as src_info panic_c fmt ast))"
  by (simp add: error_count_generate_any errors_reported_generate_any)









end
